theory Spec2Isabelle
  imports Main "HOL-Library.Word" "HOL-Library.Sublist"
begin

section \<open>Strings\<close>

text \<open>
  A JavaScript string is a sequence of 16-bit UTF-16 code units; \<open>===\<close>, \<open>includes\<close>
  and the relational operators all work on code units. The literals of the source that
  lie outside ASCII (the Korean labels and messages) are written out as their code units;
  ASCII literals are written with \<open>js\<close>.
\<close>

type_synonym jsstring = "16 word list"

definition js :: "string \<Rightarrow> jsstring" where
  "js s = map (\<lambda>c. of_nat (of_char c)) s"

text \<open>Truthiness of an optional string: \<open>undefined\<close>, \<open>null\<close> and \<open>""\<close> are falsy.\<close>

fun truthy :: "jsstring option \<Rightarrow> bool" where
  "truthy None = False"
| "truthy (Some s) = (s \<noteq> [])"

section \<open>Labels of the admin trade page\<close>

text \<open>The four Korean status labels: "trade requested", "trade accepted",
  "trade canceled" and "trade completed".\<close>

definition label_REQUEST :: jsstring where
  "label_REQUEST = [0xAC70, 0xB798, 0x0020, 0xC694, 0xCCAD]"

definition label_ACCEPT :: jsstring where
  "label_ACCEPT = [0xAC70, 0xB798, 0x0020, 0xC218, 0xB77D]"

definition label_CANCELED :: jsstring where
  "label_CANCELED = [0xAC70, 0xB798, 0x0020, 0xCDE8, 0xC18C]"

definition label_COMPLETED :: jsstring where
  "label_COMPLETED = [0xAC70, 0xB798, 0x0020, 0xC644, 0xB8CC]"

text \<open>\<open>getStatusLabel\<close>, the same switch in the trade page and in the detail modal.\<close>

definition getStatusLabel :: "jsstring \<Rightarrow> jsstring" where
  "getStatusLabel status =
     (if status = js ''REQUEST'' then label_REQUEST
      else if status = js ''ACCEPT'' then label_ACCEPT
      else if status = js ''CANCELED'' then label_CANCELED
      else if status = js ''COMPLETED'' then label_COMPLETED
      else status)"

text \<open>The six localized category labels, in the order of the source array, and the
  label "other" used for an empty category.\<close>

definition korean_PRODUCT :: jsstring where
  "korean_PRODUCT = [0xBB3C, 0xAC74, 0xBC1C, 0xBA85]"

definition korean_METHOD :: jsstring where
  "korean_METHOD = [0xBC29, 0xBC95, 0xBC1C, 0xBA85]"

definition korean_USAGE :: jsstring where
  "korean_USAGE = [0xC6A9, 0xB3C4, 0xBC1C, 0xBA85]"

definition korean_DESIGN :: jsstring where
  "korean_DESIGN = [0xB514, 0xC790, 0xC778, 0xAD8C]"

definition korean_TRADEMARK :: jsstring where
  "korean_TRADEMARK = [0xC0C1, 0xD45C, 0xAD8C]"

definition korean_COPYRIGHT :: jsstring where
  "korean_COPYRIGHT = [0xC800, 0xC791, 0xAD8C]"

definition label_other :: jsstring where
  "label_other = [0xAE30, 0xD0C0]"

definition koreanCategories :: "jsstring list" where
  "koreanCategories =
     [korean_PRODUCT, korean_METHOD, korean_USAGE, korean_DESIGN, korean_TRADEMARK,
      korean_COPYRIGHT]"

definition backendCategories :: "jsstring list" where
  "backendCategories =
     [js ''PRODUCT'', js ''METHOD'', js ''USAGE'', js ''DESIGN'', js ''TRADEMARK'',
      js ''COPYRIGHT'']"

text \<open>
  \<open>getCategoryLabel\<close>: a localized label is returned as it is, a backend code is
  translated, and the default branch is \<open>category || "other"\<close>.
\<close>

definition getCategoryLabel :: "jsstring \<Rightarrow> jsstring" where
  "getCategoryLabel category =
     (if List.member koreanCategories category then category
      else if category = js ''PRODUCT'' then korean_PRODUCT
      else if category = js ''METHOD'' then korean_METHOD
      else if category = js ''USAGE'' then korean_USAGE
      else if category = js ''DESIGN'' then korean_DESIGN
      else if category = js ''TRADEMARK'' then korean_TRADEMARK
      else if category = js ''COPYRIGHT'' then korean_COPYRIGHT
      else if category \<noteq> [] then category else label_other)"

section \<open>The HTTP client\<close>

text \<open>
  The error object a rejected request is caught with. Every field is optional and the
  code probes it with \<open>?.\<close>; a missing field is \<open>None\<close>. \<open>request\<close> is only tested for
  presence.
\<close>

record ApiData =
  message :: "jsstring option"
  resultCode :: "jsstring option"

record ApiResponse =
  data :: "ApiData option"
  status_code :: "int option"

record ApiError =
  response :: "ApiResponse option"
  request :: bool

text \<open>\<open>apiError.response?.data?.message\<close>, \<open>apiError.response?.status\<close> and
  \<open>apiError.response?.data?.resultCode\<close>.\<close>

definition response_message :: "ApiError \<Rightarrow> jsstring option" where
  "response_message e =
     (case response e of None \<Rightarrow> None
      | Some r \<Rightarrow> (case data r of None \<Rightarrow> None | Some d \<Rightarrow> message d))"

definition response_status :: "ApiError \<Rightarrow> int option" where
  "response_status e = (case response e of None \<Rightarrow> None | Some r \<Rightarrow> status_code r)"

definition response_resultCode :: "ApiError \<Rightarrow> jsstring option" where
  "response_resultCode e =
     (case response e of None \<Rightarrow> None
      | Some r \<Rightarrow> (case data r of None \<Rightarrow> None | Some d \<Rightarrow> resultCode d))"

section \<open>Trades\<close>

text \<open>
  The identifiers and the price are JavaScript numbers that the backend fills with
  integers; they are modelled as integers.
\<close>

record Trade =
  id' :: int
  postId :: int
  sellerId :: int
  buyerId :: int
  price :: int
  status :: jsstring
  createdAt :: jsstring

record TradeWithPostInfo = Trade +
  postTitle :: "jsstring option"
  postCategory :: "jsstring option"

text \<open>The payload of the trade-detail endpoint, as the detail modal declares it. The
  enrichment reads its title and category through \<open>?.\<close>, so both may be missing.\<close>

record TradeDetail =
  detail_id :: int
  detail_postId :: int
  detail_postTitle :: "jsstring option"
  detail_postCategory :: "jsstring option"
  detail_price :: int
  detail_status :: jsstring
  detail_createdAt :: jsstring
  sellerEmail :: jsstring
  buyerEmail :: jsstring

section \<open>Enrichment\<close>

text \<open>The placeholders "no title" and "no category".\<close>

definition no_title :: jsstring where
  "no_title = [0xC81C, 0xBAA9, 0x0020, 0xC5C6, 0xC74C]"

definition no_category :: jsstring where
  "no_category = [0xCE74, 0xD14C, 0xACE0, 0xB9AC, 0x0020, 0xC5C6, 0xC74C]"

text \<open>
  The body of the callback that \<open>fetchPostInfoForTrades\<close> maps over the trades, applied
  to the settled outcome of its \<open>getTradeDetail\<close> call: \<open>Inl\<close> is a rejection (the
  \<open>catch\<close> branch), \<open>Inr\<close> carries the \<open>data\<close> of the response, which may be missing.
\<close>

definition enrichTrade :: "ApiError + TradeDetail option \<Rightarrow> Trade \<Rightarrow> TradeWithPostInfo" where
  "enrichTrade outcome trade =
     (case outcome of
        Inr d \<Rightarrow>
          Trade.extend trade
            (TradeWithPostInfo.fields
               (Some (case Option.bind d detail_postTitle of
                        None \<Rightarrow> no_title | Some t \<Rightarrow> t))
               (Some (case Option.bind d detail_postCategory of
                        None \<Rightarrow> no_category
                      | Some c \<Rightarrow> if c \<noteq> [] then getCategoryLabel c else no_category)))
      | Inl err \<Rightarrow>
          Trade.extend trade
            (TradeWithPostInfo.fields (Some no_title) (Some no_category)))"

text \<open>
  \<open>fetchPostInfoForTrades\<close>: one call per trade, started in the order of the list, and
  \<open>Promise.all\<close> over callbacks that never reject, so the results come back in the order
  of the input. \<open>getTradeDetail i n\<close> is the outcome of the call made for position \<open>i\<close>
  with argument \<open>n\<close>. The result is the list handed to \<open>setTradesWithPostInfo\<close>.
\<close>

definition fetchPostInfoForTrades ::
  "(nat \<Rightarrow> int \<Rightarrow> ApiError + TradeDetail option) \<Rightarrow> Trade list \<Rightarrow> TradeWithPostInfo list" where
  "fetchPostInfoForTrades getTradeDetail trades =
     map (\<lambda>(i, trade). enrichTrade (getTradeDetail i (id' trade)) trade)
       (enumerate 0 trades)"

section \<open>Filtering\<close>


text \<open>The decimal digits of a natural number, the most significant first.\<close>

fun digits :: "nat \<Rightarrow> jsstring" where
  "digits n =
     (if n < 10 then [of_nat (48 + n)] else digits (n div 10) @ [of_nat (48 + n mod 10)])"

declare digits.simps [simp del]

text \<open>
  \<open>Number.prototype.toString\<close> on a Number whose value is an integer, after the steps of
  the language definition: a minus sign for a negative number; with \<open>n\<close> the number of
  decimal digits of the value and \<open>s\<close> its digits without the trailing zeros, the digits
  of the value when \<open>n \<le> 21\<close>, and otherwise the exponent form: the first digit of \<open>s\<close>,
  a point and the other digits of \<open>s\<close> if there are any, then \<open>e+\<close> and \<open>n - 1\<close>.
  The integer is taken as the exact value of the Number. That is so for a safe integer;
  above \<open>2^53\<close> a Number is printed with the fewest digits that still round to it, which
  this model does not describe, and values that are no integers are outside it. What is
  proved about \<open>toString\<close> below is stated for safe integers.
\<close>

definition toString_nonnegative :: "nat \<Rightarrow> jsstring" where
  "toString_nonnegative x =
     (if length (digits x) \<le> 21 then digits x
      else
        (case rev (dropWhile (\<lambda>c. c = 0x30) (rev (digits x))) of
           [] \<Rightarrow> []
         | d # ds \<Rightarrow> (if ds = [] then [d] else d # 0x2E # ds))
        @ [0x65, 0x2B] @ digits (length (digits x) - 1))"

definition toString :: "int \<Rightarrow> jsstring" where
  "toString n =
     (if n < 0 then 0x2D # toString_nonnegative (nat (- n)) else toString_nonnegative (nat n))"





text \<open>
  The decimal string of an integer, for the specification's "as decimal string": the
  digits are produced from the least significant one and put in front of those already
  produced, and a negative integer gets a minus sign. \<open>decimal_value\<close> reads such a
  string of digits back.
\<close>

fun decimal_digits :: "nat \<Rightarrow> jsstring \<Rightarrow> jsstring" where
  "decimal_digits n acc =
     (if n < 10 then of_nat (48 + n) # acc
      else decimal_digits (n div 10) (of_nat (48 + n mod 10) # acc))"

declare decimal_digits.simps [simp del]

definition spec_decimal :: "int \<Rightarrow> jsstring" where
  "spec_decimal n =
     (if n < 0 then 0x2D # decimal_digits (nat (- n)) [] else decimal_digits (nat n) [])"

definition decimal_value :: "jsstring \<Rightarrow> nat" where
  "decimal_value s = foldl (\<lambda>v c. 10 * v + (unat c - 48)) 0 s"



section \<open>Sorting\<close>

datatype SortOrder = asc | desc

text \<open>
  The two values the comparator's switch selects are always read from the same field of
  both records, so they are two numbers (\<open>None\<close> is \<open>NaN\<close>), two strings or, for a key
  that names no field of the record, twice \<open>undefined\<close>.
\<close>

datatype SortValues =
  Numbers "int option" "int option"
| Strings jsstring jsstring
| Undefineds

text \<open>\<open>a < b\<close> on strings: the order of the code units, a proper prefix first.\<close>

fun string_less :: "jsstring \<Rightarrow> jsstring \<Rightarrow> bool" where
  "string_less [] [] = False"
| "string_less [] (y # ys) = True"
| "string_less (x # xs) [] = False"
| "string_less (x # xs) (y # ys) = (x < y \<or> (x = y \<and> string_less xs ys))"

text \<open>\<open>aValue > bValue\<close> and \<open>aValue < bValue\<close>; every comparison with \<open>NaN\<close> or
  \<open>undefined\<close> is false.\<close>

fun values_greater :: "SortValues \<Rightarrow> bool" where
  "values_greater (Numbers (Some a) (Some b)) = (a > b)"
| "values_greater (Numbers _ _) = False"
| "values_greater (Strings a b) = string_less b a"
| "values_greater Undefineds = False"

fun values_less :: "SortValues \<Rightarrow> bool" where
  "values_less (Numbers (Some a) (Some b)) = (a < b)"
| "values_less (Numbers _ _) = False"
| "values_less (Strings a b) = string_less a b"
| "values_less Undefineds = False"

text \<open>\<open>x || ''\<close> on an optional string.\<close>

fun or_empty :: "jsstring option \<Rightarrow> jsstring" where
  "or_empty None = []"
| "or_empty (Some s) = s"

text \<open>
  The switch on \<open>sortBy\<close>. \<open>getTime\<close> stands for \<open>new Date(s).getTime()\<close>, which is
  \<open>NaN\<close> on a string that is no date. The default branch reads the property named by
  \<open>sortBy\<close>: the remaining fields of the record, and \<open>undefined\<close> for any other name.
\<close>

definition sortValues ::
  "(jsstring \<Rightarrow> int option) \<Rightarrow> jsstring \<Rightarrow> TradeWithPostInfo \<Rightarrow> TradeWithPostInfo \<Rightarrow> SortValues"
where
  "sortValues getTime sortBy a b =
     (if sortBy = js ''createdAt'' then Numbers (getTime (createdAt a)) (getTime (createdAt b))
      else if sortBy = js ''price'' then Numbers (Some (price a)) (Some (price b))
      else if sortBy = js ''id'' then Numbers (Some (id' a)) (Some (id' b))
      else if sortBy = js ''postTitle'' then
        Strings (or_empty (postTitle a)) (or_empty (postTitle b))
      else if sortBy = js ''postCategory'' then
        Strings (or_empty (postCategory a)) (or_empty (postCategory b))
      else if sortBy = js ''postId'' then Numbers (Some (postId a)) (Some (postId b))
      else if sortBy = js ''sellerId'' then Numbers (Some (sellerId a)) (Some (sellerId b))
      else if sortBy = js ''buyerId'' then Numbers (Some (buyerId a)) (Some (buyerId b))
      else if sortBy = js ''status'' then Strings (status a) (status b)
      else Undefineds)"

definition compareTrades ::
  "(jsstring \<Rightarrow> int option) \<Rightarrow> jsstring \<Rightarrow> SortOrder \<Rightarrow> TradeWithPostInfo \<Rightarrow>
   TradeWithPostInfo \<Rightarrow> int"
where
  "compareTrades getTime sortBy sortOrder a b =
     (case sortOrder of
        asc \<Rightarrow> if values_greater (sortValues getTime sortBy a b) then 1 else - 1
      | desc \<Rightarrow> if values_less (sortValues getTime sortBy a b) then 1 else - 1)"

text \<open>
  \<open>Array.prototype.sort\<close> with a comparator. The language leaves the algorithm to the
  engine; the model is the stable insertion sort, which moves an element past another
  one only when the comparator returns a positive number for the pair. The comparator of
  the page never returns 0, so on records with equal keys, or with a date that is \<open>NaN\<close>,
  it is not a consistent comparator, the language leaves the order open and engines
  differ from this model there. The model gives the order of the engines on records
  whose keys are distinct and comparable, and is used on such records only.
\<close>

fun insert_sorted :: "('a \<Rightarrow> 'a \<Rightarrow> int) \<Rightarrow> 'a \<Rightarrow> 'a list \<Rightarrow> 'a list" where
  "insert_sorted cmp x [] = [x]"
| "insert_sorted cmp x (y # ys) =
     (if cmp x y > 0 then y # insert_sorted cmp x ys else x # y # ys)"

definition Array_sort :: "('a \<Rightarrow> 'a \<Rightarrow> int) \<Rightarrow> 'a list \<Rightarrow> 'a list" where
  "Array_sort cmp xs = foldr (insert_sorted cmp) xs []"

definition sortedTrades ::
  "(jsstring \<Rightarrow> int option) \<Rightarrow> jsstring \<Rightarrow> SortOrder \<Rightarrow> TradeWithPostInfo list \<Rightarrow>
   TradeWithPostInfo list"
where
  "sortedTrades getTime sortBy sortOrder filtered =
     Array_sort (compareTrades getTime sortBy sortOrder) filtered"

section \<open>The trade detail modal\<close>

record ModalState =
  trade :: "TradeDetail option"
  isLoading :: bool
  error :: "jsstring option"

definition initialModal :: ModalState where
  "initialModal = \<lparr>trade = None, isLoading = False, error = None\<rparr>"

text \<open>The message shown when a failed detail request carries none: "failed to load the
  trade details".\<close>

definition detail_failed :: jsstring where
  "detail_failed =
     [0xAC70, 0xB798, 0x0020, 0xC0C1, 0xC138, 0x0020, 0xC815, 0xBCF4, 0xB97C, 0x0020,
      0xBD88, 0xB7EC, 0xC624, 0xB294, 0xB370, 0x0020, 0xC2E4, 0xD328, 0xD588, 0xC2B5,
      0xB2C8, 0xB2E4, 0x002E]"

text \<open>
  \<open>fetchTradeDetail\<close> in two halves, before and after its \<open>await\<close>. The first half
  returns at once on a falsy identifier; otherwise it sets the loading flag, clears the
  error and issues the request (the second component says whether it did). The second
  half runs when the request settles: it stores the payload or the error message and
  clears the loading flag. It compares no identifier.
\<close>

definition fetchTradeDetail_begin :: "int \<Rightarrow> ModalState \<Rightarrow> ModalState \<times> bool" where
  "fetchTradeDetail_begin tradeId m =
     (if tradeId = 0 then (m, False)
      else (m\<lparr>isLoading := True, error := None\<rparr>, True))"

definition fetchTradeDetail_settle ::
  "ApiError + TradeDetail option \<Rightarrow> ModalState \<Rightarrow> ModalState" where
  "fetchTradeDetail_settle outcome m =
     (case outcome of
        Inr tradeData \<Rightarrow> m\<lparr>trade := tradeData, isLoading := False\<rparr>
      | Inl err \<Rightarrow>
          m\<lparr>error :=
               Some (if truthy (response_message err) then or_empty (response_message err)
                     else detail_failed),
            isLoading := False\<rparr>)"

text \<open>
  \<open>handleClose\<close> clears the trade and the error and then calls the \<open>onClose\<close> of the
  parent. \<open>handleBackdropClick\<close>, under the comment "close on a click outside the
  modal", calls it when the click hit the backdrop itself; the component defines this
  handler and attaches it to no element.
\<close>

definition handleClose :: "('p \<Rightarrow> 'p) \<Rightarrow> ModalState \<times> 'p \<Rightarrow> ModalState \<times> 'p" where
  "handleClose onClose mp = ((fst mp)\<lparr>trade := None, error := None\<rparr>, onClose (snd mp))"

definition handleBackdropClick ::
  "('p \<Rightarrow> 'p) \<Rightarrow> bool \<Rightarrow> ModalState \<times> 'p \<Rightarrow> ModalState \<times> 'p" where
  "handleBackdropClick onClose target_is_currentTarget mp =
     (if target_is_currentTarget then handleClose onClose mp else mp)"

section \<open>The trade page and its modal\<close>

text \<open>
  The page keeps \<open>selectedTradeId\<close> and \<open>isModalOpen\<close> and renders the modal as
  \<open>{selectedTradeId && <TradeDetailModal ... />}\<close>: the component is mounted while the
  identifier is truthy and unmounted otherwise. A mounted component has its own state,
  created afresh at every mount; \<open>modal\<close> pairs it with the number of the mount.
  \<open>pending\<close> lists the detail requests in flight, each with the mount that issued it and
  its identifier.
\<close>

record Page =
  selectedTradeId :: "int option"
  isModalOpen :: bool
  modal :: "(nat \<times> ModalState) option"
  mounts :: nat
  pending :: "(nat \<times> int) list"

definition initialPage :: Page where
  "initialPage =
     \<lparr>selectedTradeId = None, isModalOpen = False, modal = None, mounts = 0, pending = []\<rparr>"

definition handleTradeClick :: "int \<Rightarrow> Page \<Rightarrow> Page" where
  "handleTradeClick tradeId p = p\<lparr>selectedTradeId := Some tradeId, isModalOpen := True\<rparr>"

definition handleModalClose :: "Page \<Rightarrow> Page" where
  "handleModalClose p = p\<lparr>isModalOpen := False, selectedTradeId := None\<rparr>"

text \<open>The modal's effect, with dependencies \<open>isOpen\<close> and \<open>tradeId\<close>: it starts a fetch
  when the modal is open on a truthy identifier.\<close>

definition modalEffect :: "Page \<Rightarrow> Page" where
  "modalEffect p =
     (case (modal p, selectedTradeId p) of
        (Some (k, m), Some tradeId) \<Rightarrow>
          if isModalOpen p \<and> tradeId \<noteq> 0 then
            (case fetchTradeDetail_begin tradeId m of
               (m', issued) \<Rightarrow>
                 p\<lparr>modal := Some (k, m'),
                   pending := (if issued then pending p @ [(k, tradeId)] else pending p)\<rparr>)
          else p
      | _ \<Rightarrow> p)"

text \<open>
  Rendering after the handlers of an event have run, from the page before the event and
  the page they left: the modal is unmounted when the identifier is falsy, mounted with
  a fresh state (and its effect run) when it was not mounted, and kept otherwise, its
  effect running again when a dependency changed.
\<close>

definition render :: "Page \<Rightarrow> Page \<Rightarrow> Page" where
  "render old p =
     (case selectedTradeId p of
        None \<Rightarrow> p\<lparr>modal := None\<rparr>
      | Some tradeId \<Rightarrow>
          if tradeId = 0 then p\<lparr>modal := None\<rparr>
          else
            (case modal p of
               None \<Rightarrow> modalEffect (p\<lparr>modal := Some (mounts p, initialModal), mounts := Suc (mounts p)\<rparr>)
             | Some _ \<Rightarrow>
                 if isModalOpen old \<noteq> isModalOpen p \<or> selectedTradeId old \<noteq> selectedTradeId p
                 then modalEffect p else p))"

text \<open>
  What can happen to the page: a click on a trade, a click on one of the modal's two
  close buttons, a click on the modal's backdrop, a click on the retry button, and a
  pending request settling. The backdrop element carries no \<open>onClick\<close>, so a click on it
  runs no handler and leaves the page as it is. A state update that a settling request
  makes on a component that is no longer mounted is dropped by React.
\<close>

datatype Event =
  TradeClick int
| CloseClick
| BackdropClick
| RetryClick
| Settle nat "ApiError + TradeDetail option"

definition closeModal :: "(ModalState \<times> Page \<Rightarrow> ModalState \<times> Page) \<Rightarrow> Page \<Rightarrow> Page option" where
  "closeModal handler p =
     (case modal p of
        None \<Rightarrow> None
      | Some (k, m) \<Rightarrow>
          if isModalOpen p then
            (case handler (m, p) of (m', p') \<Rightarrow> Some (render p (p'\<lparr>modal := Some (k, m')\<rparr>)))
          else None)"

fun step :: "Event \<Rightarrow> Page \<Rightarrow> Page option" where
  "step (TradeClick tradeId) p = Some (render p (handleTradeClick tradeId p))"
| "step CloseClick p = closeModal (handleClose handleModalClose) p"
| "step BackdropClick p =
     (case modal p of
        None \<Rightarrow> None
      | Some _ \<Rightarrow> if isModalOpen p then Some p else None)"
| "step RetryClick p =
     (case (modal p, selectedTradeId p) of
        (Some (k, m), Some tradeId) \<Rightarrow>
          if isModalOpen p \<and> \<not> isLoading m \<and> truthy (error m) then
            (case fetchTradeDetail_begin tradeId m of
               (m', issued) \<Rightarrow>
                 Some (p\<lparr>modal := Some (k, m'),
                         pending := (if issued then pending p @ [(k, tradeId)] else pending p)\<rparr>))
          else None
      | _ \<Rightarrow> None)"
| "step (Settle i outcome) p =
     (if i < length (pending p) then
        (let k = fst (pending p ! i);
             rest = take i (pending p) @ drop (Suc i) (pending p)
         in case modal p of
              Some (k', m) \<Rightarrow>
                if k' = k
                then Some (p\<lparr>modal := Some (k, fetchTradeDetail_settle outcome m), pending := rest\<rparr>)
                else Some (p\<lparr>pending := rest\<rparr>)
            | None \<Rightarrow> Some (p\<lparr>pending := rest\<rparr>))
      else None)"

fun run :: "Event list \<Rightarrow> Page \<Rightarrow> Page option" where
  "run [] p = Some p"
| "run (e # es) p = (case step e p of None \<Rightarrow> None | Some p' \<Rightarrow> run es p')"

text \<open>The trade on display: that of the mounted modal.\<close>

definition displayedTrade :: "Page \<Rightarrow> TradeDetail option" where
  "displayedTrade p = (case modal p of None \<Rightarrow> None | Some (k, m) \<Rightarrow> trade m)"

section \<open>The registration page\<close>

record RegisterForm =
  name :: jsstring
  email :: jsstring
  password :: jsstring
  confirmPassword :: jsstring
  agree :: bool

record SignupRequest =
  signup_name :: jsstring
  signup_email :: jsstring
  signup_password :: jsstring

text \<open>
  The state of the page, with the two effects of \<open>handleSubmit\<close> recorded in it:
  \<open>posted\<close> lists the signup requests sent and \<open>pushed\<close> the routes the router was sent to.
\<close>

record RegisterState =
  formData :: RegisterForm
  register_isLoading :: bool
  register_error :: jsstring
  posted :: "SignupRequest list"
  pushed :: "jsstring list"

text \<open>The messages "the passwords do not match", "please agree to the terms of use"
  and "connecting to the server failed, please try again".\<close>

definition password_mismatch :: jsstring where
  "password_mismatch =
     [0xBE44, 0xBC00, 0xBC88, 0xD638, 0xAC00, 0x0020, 0xC77C, 0xCE58, 0xD558, 0xC9C0,
      0x0020, 0xC54A, 0xC2B5, 0xB2C8, 0xB2E4, 0x002E]"

definition terms_not_agreed :: jsstring where
  "terms_not_agreed =
     [0xC774, 0xC6A9, 0xC57D, 0xAD00, 0xC5D0, 0x0020, 0xB3D9, 0xC758, 0xD574, 0xC8FC,
      0xC138, 0xC694, 0x002E]"

definition signup_failed :: jsstring where
  "signup_failed =
     [0xC11C, 0xBC84, 0x0020, 0xC5F0, 0xACB0, 0xC5D0, 0x0020, 0xC2E4, 0xD328, 0xD588,
      0xC2B5, 0xB2C8, 0xB2E4, 0x002E, 0x0020, 0xB2E4, 0xC2DC, 0x0020, 0xC2DC, 0xB3C4,
      0xD574, 0xC8FC, 0xC138, 0xC694, 0x002E]"

text \<open>\<open>handleSubmit\<close> of the registration page; \<open>post\<close> is the outcome of the signup
  request.\<close>

definition RegisterPage_handleSubmit ::
  "(SignupRequest \<Rightarrow> ApiError + unit) \<Rightarrow> RegisterState \<Rightarrow> RegisterState" where
  "RegisterPage_handleSubmit post s =
     (let s1 = s\<lparr>register_error := [], register_isLoading := True\<rparr>;
          form = formData s1
      in if password form \<noteq> confirmPassword form then
           s1\<lparr>register_error := password_mismatch, register_isLoading := False\<rparr>
         else if \<not> agree form then
           s1\<lparr>register_error := terms_not_agreed, register_isLoading := False\<rparr>
         else
           (let req = \<lparr>signup_name = name form, signup_email = email form,
                       signup_password = password form\<rparr>;
                s2 = s1\<lparr>posted := posted s1 @ [req]\<rparr>
            in case post req of
                 Inr _ \<Rightarrow>
                   s2\<lparr>pushed := pushed s2 @ [js ''/register/success''],
                      register_isLoading := False\<rparr>
               | Inl apiError \<Rightarrow>
                   s2\<lparr>register_error :=
                        (if truthy (response_message apiError)
                         then or_empty (response_message apiError) else signup_failed),
                      register_isLoading := False\<rparr>))"

section \<open>The login page\<close>

record LoginForm =
  login_email :: jsstring
  login_password :: jsstring

record MemberInfo =
  member_id :: int
  member_email :: jsstring
  member_name :: jsstring
  member_profileUrl :: "jsstring option"
  member_role :: "jsstring option"

record LoginData =
  accessToken :: "jsstring option"
  refreshToken :: "jsstring option"
  memberInfo :: "MemberInfo option"

record User =
  user_id :: jsstring
  user_email :: jsstring
  user_name :: jsstring
  profileUrl :: "jsstring option"
  role :: jsstring

text \<open>
  The state of the page, with the effects of \<open>handleSubmit\<close> recorded in it: \<open>session\<close>
  holds the arguments of the call of \<open>login\<close>, \<open>login_pushed\<close> the routes the router was
  sent to.
\<close>

record LoginState =
  login_formData :: LoginForm
  login_isLoading :: bool
  login_error :: jsstring
  session :: "(User \<times> jsstring option \<times> jsstring option) option"
  login_pushed :: "jsstring list"

text \<open>
  The messages of the login page: credentials do not match, the account was
  deactivated, the account was suspended by an administrator, no permission, server
  error, no connection to the server, an error during login, and malformed response data.
\<close>

definition credential_mismatch :: jsstring where
  "credential_mismatch =
     [0xC774, 0xBA54, 0xC77C, 0x0020, 0xD639, 0xC740, 0x0020, 0xBE44, 0xBC00, 0xBC88,
      0xD638, 0xB97C, 0x0020, 0xC798, 0xBABB, 0x0020, 0xC785, 0xB825, 0xD558, 0xC168,
      0xAC70, 0xB098, 0x0020, 0xB4F1, 0xB85D, 0xB418, 0xC9C0, 0x0020, 0xC54A, 0xC740,
      0x0020, 0xACC4, 0xC815, 0xC785, 0xB2C8, 0xB2E4, 0x002E]"

definition account_deactivated :: jsstring where
  "account_deactivated =
     [0xD0C8, 0xD1F4, 0xD55C, 0x0020, 0xACC4, 0xC815, 0xC785, 0xB2C8, 0xB2E4, 0x002E,
      0x0020, 0xC0C8, 0xB85C, 0xC6B4, 0x0020, 0xACC4, 0xC815, 0xC73C, 0xB85C, 0x0020,
      0xAC00, 0xC785, 0xD574, 0xC8FC, 0xC138, 0xC694, 0x002E]"

definition account_suspended :: jsstring where
  "account_suspended =
     [0xAD00, 0xB9AC, 0xC790, 0xC5D0, 0x0020, 0xC758, 0xD574, 0x0020, 0xC815, 0xC9C0,
      0xB41C, 0x0020, 0xACC4, 0xC815, 0xC785, 0xB2C8, 0xB2E4, 0x002E, 0x0020, 0xAD00,
      0xB9AC, 0xC790, 0xC5D0, 0xAC8C, 0x0020, 0xBB38, 0xC758, 0x0020, 0xBC14, 0xB78D,
      0xB2C8, 0xB2E4, 0x002E]"

definition no_permission :: jsstring where
  "no_permission =
     [0xC811, 0xADFC, 0x0020, 0xAD8C, 0xD55C, 0xC774, 0x0020, 0xC5C6, 0xC2B5, 0xB2C8,
      0xB2E4, 0x002E]"

definition server_error :: jsstring where
  "server_error =
     [0xC11C, 0xBC84, 0x0020, 0xC624, 0xB958, 0xAC00, 0x0020, 0xBC1C, 0xC0DD, 0xD588,
      0xC2B5, 0xB2C8, 0xB2E4, 0x002E, 0x0020, 0xC7A0, 0xC2DC, 0x0020, 0xD6C4, 0x0020,
      0xB2E4, 0xC2DC, 0x0020, 0xC2DC, 0xB3C4, 0xD574, 0xC8FC, 0xC138, 0xC694, 0x002E]"

definition connection_failed :: jsstring where
  "connection_failed =
     [0xC11C, 0xBC84, 0x0020, 0xC5F0, 0xACB0, 0xC5D0, 0x0020, 0xC2E4, 0xD328, 0xD588,
      0xC2B5, 0xB2C8, 0xB2E4, 0x002E, 0x0020, 0xB124, 0xD2B8, 0xC6CC, 0xD06C, 0x0020,
      0xC5F0, 0xACB0, 0xC744, 0x0020, 0xD655, 0xC778, 0xD574, 0xC8FC, 0xC138, 0xC694,
      0x002E]"

definition login_failed :: jsstring where
  "login_failed =
     [0xB85C, 0xADF8, 0xC778, 0x0020, 0xC911, 0x0020, 0xC624, 0xB958, 0xAC00, 0x0020,
      0xBC1C, 0xC0DD, 0xD588, 0xC2B5, 0xB2C8, 0xB2E4, 0x002E, 0x0020, 0xB2E4, 0xC2DC,
      0x0020, 0xC2DC, 0xB3C4, 0xD574, 0xC8FC, 0xC138, 0xC694, 0x002E]"

definition malformed_response :: jsstring where
  "malformed_response =
     [0xB85C, 0xADF8, 0xC778, 0x0020, 0xC751, 0xB2F5, 0x0020, 0xB370, 0xC774, 0xD130,
      0xAC00, 0x0020, 0xC62C, 0xBC14, 0xB974, 0xC9C0, 0x0020, 0xC54A, 0xC2B5, 0xB2C8,
      0xB2E4, 0x002E]"

text \<open>The \<open>catch\<close> branch of the login \<open>handleSubmit\<close>: the message for a caught error.\<close>

definition loginErrorMessage :: "ApiError \<Rightarrow> jsstring" where
  "loginErrorMessage apiError =
     (if truthy (response_message apiError) then or_empty (response_message apiError)
      else if response_status apiError = Some 401 then credential_mismatch
      else if response_status apiError = Some 400 then credential_mismatch
      else if response_status apiError = Some 403 then
        (if response_resultCode apiError = Some (js ''403-1'') then account_deactivated
         else if response_resultCode apiError = Some (js ''403-2'') then account_suspended
         else no_permission)
      else if response_status apiError = Some 500 then server_error
      else if request apiError then connection_failed
      else login_failed)"

text \<open>\<open>handleSubmit\<close> of the login page; \<open>post\<close> is the outcome of the login request,
  \<open>Inr\<close> carrying \<open>response.data.data\<close>.\<close>

definition LoginPage_handleSubmit ::
  "(LoginForm \<Rightarrow> ApiError + LoginData option) \<Rightarrow> LoginState \<Rightarrow> LoginState" where
  "LoginPage_handleSubmit post s =
     (let s1 = s\<lparr>login_error := [], login_isLoading := True\<rparr>
      in case post (login_formData s1) of
           Inr None \<Rightarrow> s1\<lparr>login_error := malformed_response, login_isLoading := False\<rparr>
         | Inr (Some d) \<Rightarrow>
             (let s2 =
                (case memberInfo d of
                   None \<Rightarrow> s1
                 | Some mi \<Rightarrow>
                     s1\<lparr>session :=
                          Some (\<lparr>user_id = toString (member_id mi), user_email = member_email mi,
                                 user_name = member_name mi,
                                 profileUrl =
                                   (if truthy (member_profileUrl mi) then member_profileUrl mi
                                    else None),
                                 role =
                                   (if truthy (member_role mi) then or_empty (member_role mi)
                                    else js ''USER'')\<rparr>,
                                accessToken d, refreshToken d)\<rparr>);
                  userRole =
                    (case memberInfo d of
                       None \<Rightarrow> js ''USER''
                     | Some mi \<Rightarrow>
                         if truthy (member_role mi) then or_empty (member_role mi)
                         else js ''USER'')
              in s2\<lparr>login_pushed :=
                      login_pushed s2 @
                        [if userRole = js ''ADMIN'' then js ''/admin/members'' else js ''/''],
                    login_isLoading := False\<rparr>)
         | Inl apiError \<Rightarrow>
             s1\<lparr>login_error := loginErrorMessage apiError, login_isLoading := False\<rparr>)"

section \<open>Example inputs\<close>

definition example_trade :: "int \<Rightarrow> int \<Rightarrow> jsstring \<Rightarrow> Trade" where
  "example_trade n p st =
     \<lparr>id' = n, postId = 10 + n, sellerId = 1, buyerId = 2, price = p, status = st,
      createdAt = js ''2025-01-01T00:00:00''\<rparr>"

definition example_detail :: "int \<Rightarrow> jsstring \<Rightarrow> jsstring \<Rightarrow> TradeDetail" where
  "example_detail n title category =
     \<lparr>detail_id = n, detail_postId = 10 + n, detail_postTitle = Some title,
      detail_postCategory = Some category, detail_price = 100,
      detail_status = js ''REQUEST'', detail_createdAt = js ''2025-01-01T00:00:00'',
      sellerEmail = js ''seller@example.com'', buyerEmail = js ''buyer@example.com''\<rparr>"

text \<open>A backend whose detail request fails for the trade at position 1 and succeeds
  for every other one, with the title \<open>Patent\<close> and the category code \<open>PRODUCT\<close>.\<close>

definition example_getTradeDetail :: "nat \<Rightarrow> int \<Rightarrow> ApiError + TradeDetail option" where
  "example_getTradeDetail i n =
     (if i = 1 then Inl \<lparr>response = None, request = True\<rparr>
      else Inr (Some (example_detail n (js ''Patent'') (js ''PRODUCT''))))"

definition example_trades :: "Trade list" where
  "example_trades =
     [example_trade 1 300 (js ''REQUEST''), example_trade 2 100 (js ''ACCEPT''),
      example_trade 3 200 (js ''COMPLETED'')]"


text \<open>A failed login whose payload has a status and a result code but no message.\<close>

definition example_login_error :: "int \<Rightarrow> jsstring option \<Rightarrow> ApiError" where
  "example_login_error st rc =
     \<lparr>response = Some \<lparr>data = Some \<lparr>message = None, resultCode = rc\<rparr>, status_code = Some st\<rparr>,
      request = True\<rparr>"

definition example_login :: LoginState where
  "example_login =
     \<lparr>login_formData = \<lparr>login_email = js ''a@example.com'', login_password = js ''secret''\<rparr>,
      login_isLoading = False, login_error = [], session = None, login_pushed = []\<rparr>"

definition example_register :: "jsstring \<Rightarrow> bool \<Rightarrow> RegisterState" where
  "example_register confirm agreed =
     \<lparr>formData =
        \<lparr>name = js ''Kim'', email = js ''kim@example.com'', password = js ''secret'',
         confirmPassword = confirm, agree = agreed\<rparr>,
      register_isLoading = False, register_error = [], posted = [], pushed = []\<rparr>"

text \<open>The page after a click on trade 5 followed by a click on trade 7 with the modal
  still mounted, and the page after trade 5 was opened and closed and trade 7 opened;
  both requests are in flight.\<close>

definition example_page_switched :: Page where
  "example_page_switched =
     \<lparr>selectedTradeId = Some 7, isModalOpen = True,
      modal = Some (0, \<lparr>trade = None, isLoading = True, error = None\<rparr>),
      mounts = 1, pending = [(0, 5), (0, 7)]\<rparr>"

definition example_page_reopened :: Page where
  "example_page_reopened =
     \<lparr>selectedTradeId = Some 7, isModalOpen = True,
      modal = Some (1, \<lparr>trade = None, isLoading = True, error = None\<rparr>),
      mounts = 2, pending = [(0, 5), (1, 7)]\<rparr>"

section \<open>Status and category labels\<close>

lemmas category_defs =
  koreanCategories_def backendCategories_def korean_PRODUCT_def korean_METHOD_def
  korean_USAGE_def korean_DESIGN_def korean_TRADEMARK_def korean_COPYRIGHT_def
  label_other_def

text \<open>
  C8. \<open>getStatusLabel\<close> returns every status string other than \<open>REQUEST\<close>, \<open>ACCEPT\<close>,
  \<open>CANCELED\<close> and \<open>COMPLETED\<close> unchanged, and maps each of the four to its fixed Korean
  label.
\<close>

theorem getStatusLabel_values:
  "(s \<notin> {js ''REQUEST'', js ''ACCEPT'', js ''CANCELED'', js ''COMPLETED''}
      \<longrightarrow> getStatusLabel s = s) \<and>
   getStatusLabel (js ''REQUEST'') = label_REQUEST \<and>
   getStatusLabel (js ''ACCEPT'') = label_ACCEPT \<and>
   getStatusLabel (js ''CANCELED'') = label_CANCELED \<and>
   getStatusLabel (js ''COMPLETED'') = label_COMPLETED"
  by (simp add: getStatusLabel_def js_def)

theorem getStatusLabel_values_witness:
  "js ''PENDING'' \<notin> {js ''REQUEST'', js ''ACCEPT'', js ''CANCELED'', js ''COMPLETED''} \<and>
   getStatusLabel (js ''PENDING'') = js ''PENDING''"
  using getStatusLabel_values [of "js ''PENDING''"] by (simp add: js_def)

text \<open>
  C5. \<open>getCategoryLabel\<close> is idempotent: applying it twice gives what applying it once
  gives, for every string; each of the six localized labels is mapped to itself.
\<close>

theorem getCategoryLabel_idempotent:
  "getCategoryLabel (getCategoryLabel c) = getCategoryLabel c \<and>
   getCategoryLabel korean_PRODUCT = korean_PRODUCT \<and>
   getCategoryLabel korean_METHOD = korean_METHOD \<and>
   getCategoryLabel korean_USAGE = korean_USAGE \<and>
   getCategoryLabel korean_DESIGN = korean_DESIGN \<and>
   getCategoryLabel korean_TRADEMARK = korean_TRADEMARK \<and>
   getCategoryLabel korean_COPYRIGHT = korean_COPYRIGHT"
  by (simp add: getCategoryLabel_def category_defs js_def)

text \<open>
  C3, as stated: every category that is neither a backend code nor a localized label is
  mapped to the label "other". The string \<open>PATENT\<close> is neither, and \<open>getCategoryLabel\<close>
  returns it as it is.
\<close>

theorem getCategoryLabel_unrecognized_counterexample:
  "js ''PATENT'' \<notin> set backendCategories \<and> js ''PATENT'' \<notin> set koreanCategories \<and>
   getCategoryLabel (js ''PATENT'') = js ''PATENT'' \<and>
   getCategoryLabel (js ''PATENT'') \<noteq> label_other"
  by (simp add: getCategoryLabel_def category_defs js_def)

text \<open>
  C3, amended. \<open>getCategoryLabel\<close> maps the empty string to the label "other" and returns
  every other string that is neither a backend code nor a localized label unchanged.
  The enrichment does not hand it a missing or empty category: such an entry gets the
  placeholder "no category".
\<close>

theorem getCategoryLabel_default:
  "getCategoryLabel [] = label_other \<and>
   (c \<noteq> [] \<longrightarrow> c \<notin> set backendCategories \<longrightarrow> c \<notin> set koreanCategories \<longrightarrow>
      getCategoryLabel c = c) \<and>
   (Option.bind d detail_postCategory \<in> {None, Some []} \<longrightarrow>
      postCategory (enrichTrade (Inr d) t) = Some no_category)"
  by (auto simp add: getCategoryLabel_def category_defs js_def enrichTrade_def
        Trade.extend_def TradeWithPostInfo.fields_def)

theorem getCategoryLabel_default_witness:
  "js ''PATENT'' \<noteq> [] \<and> js ''PATENT'' \<notin> set backendCategories \<and>
   js ''PATENT'' \<notin> set koreanCategories \<and> getCategoryLabel (js ''PATENT'') = js ''PATENT'' \<and>
   Option.bind (Some (example_detail 1 (js ''Patent'') [])) detail_postCategory
     \<in> {None, Some []} \<and>
   postCategory (enrichTrade (Inr (Some (example_detail 1 (js ''Patent'') [])))
     (example_trade 1 300 (js ''REQUEST''))) = Some no_category"
  using getCategoryLabel_default
    [of "js ''PATENT''" "Some (example_detail 1 (js ''Patent'') [])"
        "example_trade 1 300 (js ''REQUEST'')"]
  by (simp add: category_defs js_def example_detail_def)

section \<open>Enrichment under a partial failure\<close>

lemma fetchPostInfoForTrades_length:
  "length (fetchPostInfoForTrades getTradeDetail trades) = length trades"
  by (simp add: fetchPostInfoForTrades_def)

lemma fetchPostInfoForTrades_nth:
  "i < length trades \<Longrightarrow>
   fetchPostInfoForTrades getTradeDetail trades ! i =
     enrichTrade (getTradeDetail i (id' (trades ! i))) (trades ! i)"
  by (simp add: fetchPostInfoForTrades_def nth_enumerate_eq)

lemma truncate_enrichTrade: "Trade.truncate (enrichTrade outcome t) = t"
  by (simp add: enrichTrade_def Trade.truncate_def Trade.extend_def split: sum.splits)

lemma fetchPostInfoForTrades_order:
  "map Trade.truncate (fetchPostInfoForTrades getTradeDetail trades) = trades"
  by (rule nth_equalityI)
     (simp_all add: fetchPostInfoForTrades_length fetchPostInfoForTrades_nth truncate_enrichTrade)

lemma enrichTrade_failure:
  "postTitle (enrichTrade (Inl e) t) = Some no_title \<and>
   postCategory (enrichTrade (Inl e) t) = Some no_category"
  by (simp add: enrichTrade_def Trade.extend_def TradeWithPostInfo.fields_def)

lemma enrichTrade_success:
  "postTitle (enrichTrade (Inr d) t) =
     Some (case Option.bind d detail_postTitle of None \<Rightarrow> no_title | Some x \<Rightarrow> x) \<and>
   postCategory (enrichTrade (Inr d) t) =
     Some (case Option.bind d detail_postCategory of None \<Rightarrow> no_category
           | Some c \<Rightarrow> if c \<noteq> [] then getCategoryLabel c else no_category)"
  by (simp add: enrichTrade_def Trade.extend_def TradeWithPostInfo.fields_def)

text \<open>
  C1, as stated: every entry whose fetch succeeded carries its fetched title and
  category. With the request failing at position 1 only, the entry at position 0, whose
  fetch returned the category \<open>PRODUCT\<close>, carries the localized label and not the
  fetched category.
\<close>

theorem fetchPostInfoForTrades_raw_category_counterexample:
  "isl (example_getTradeDetail 1 (id' (example_trades ! 1))) \<and>
   example_getTradeDetail 0 (id' (example_trades ! 0)) =
     Inr (Some (example_detail 1 (js ''Patent'') (js ''PRODUCT''))) \<and>
   \<not> isl (example_getTradeDetail 2 (id' (example_trades ! 2))) \<and>
   detail_postCategory (example_detail 1 (js ''Patent'') (js ''PRODUCT'')) = Some (js ''PRODUCT'') \<and>
   postCategory (fetchPostInfoForTrades example_getTradeDetail example_trades ! 0)
     = Some korean_PRODUCT \<and>
   postCategory (fetchPostInfoForTrades example_getTradeDetail example_trades ! 0)
     \<noteq> Some (js ''PRODUCT'')"
  by (simp add: fetchPostInfoForTrades_def example_getTradeDetail_def example_trades_def
      example_trade_def example_detail_def enrichTrade_def Trade.extend_def
      TradeWithPostInfo.fields_def getCategoryLabel_def category_defs js_def)

text \<open>
  C1, amended. If the detail request fails for the trade at position \<open>K\<close> and succeeds
  for every other one, the enrichment yields as many entries as there are trades, in the
  order of the input and each with the fields of its trade; entry \<open>K\<close> has the
  placeholders "no title" and "no category"; every other entry has the title of its
  response, or "no title" if there is none, and the label that \<open>getCategoryLabel\<close> gives
  for the category of its response, or "no category" if there is none or an empty one.
\<close>

theorem fetchPostInfoForTrades_partial_failure:
  assumes "K < length trades"
    and "isl (getTradeDetail K (id' (trades ! K)))"
    and "\<forall>i<length trades. i \<noteq> K \<longrightarrow> \<not> isl (getTradeDetail i (id' (trades ! i)))"
  shows
    "length (fetchPostInfoForTrades getTradeDetail trades) = length trades \<and>
     map Trade.truncate (fetchPostInfoForTrades getTradeDetail trades) = trades \<and>
     postTitle (fetchPostInfoForTrades getTradeDetail trades ! K) = Some no_title \<and>
     postCategory (fetchPostInfoForTrades getTradeDetail trades ! K) = Some no_category \<and>
     (\<forall>i<length trades. i \<noteq> K \<longrightarrow>
        (\<exists>d. getTradeDetail i (id' (trades ! i)) = Inr d \<and>
           postTitle (fetchPostInfoForTrades getTradeDetail trades ! i) =
             Some (case Option.bind d detail_postTitle of None \<Rightarrow> no_title | Some x \<Rightarrow> x) \<and>
           postCategory (fetchPostInfoForTrades getTradeDetail trades ! i) =
             Some (case Option.bind d detail_postCategory of
                     None \<Rightarrow> no_category
                   | Some c \<Rightarrow> if c = [] then no_category else getCategoryLabel c)))"
proof -
  let ?out = "fetchPostInfoForTrades getTradeDetail trades"
  obtain e where e: "getTradeDetail K (id' (trades ! K)) = Inl e"
    using assms(2) by (auto simp: isl_def)
  have failed: "postTitle (?out ! K) = Some no_title \<and> postCategory (?out ! K) = Some no_category"
    using assms(1) e by (simp add: fetchPostInfoForTrades_nth enrichTrade_failure)
  have others: "\<exists>d. getTradeDetail i (id' (trades ! i)) = Inr d \<and>
           postTitle (?out ! i) =
             Some (case Option.bind d detail_postTitle of None \<Rightarrow> no_title | Some x \<Rightarrow> x) \<and>
           postCategory (?out ! i) =
             Some (case Option.bind d detail_postCategory of
                     None \<Rightarrow> no_category
                   | Some c \<Rightarrow> if c = [] then no_category else getCategoryLabel c)"
    if "i < length trades" "i \<noteq> K" for i
  proof -
    from that assms(3) have "\<not> isl (getTradeDetail i (id' (trades ! i)))" by blast
    then obtain d where d: "getTradeDetail i (id' (trades ! i)) = Inr d"
      by (cases "getTradeDetail i (id' (trades ! i))") auto
    show ?thesis
      using that(1) d by (auto simp add: fetchPostInfoForTrades_nth enrichTrade_success split: option.splits)
  qed
  show ?thesis
    using failed others
    by (simp add: fetchPostInfoForTrades_length fetchPostInfoForTrades_order)
qed

theorem fetchPostInfoForTrades_partial_failure_witness:
  "(1::nat) < length example_trades \<and>
   isl (example_getTradeDetail 1 (id' (example_trades ! 1))) \<and>
   \<not> isl (example_getTradeDetail 0 (id' (example_trades ! 0))) \<and>
   \<not> isl (example_getTradeDetail 2 (id' (example_trades ! 2))) \<and>
   length (fetchPostInfoForTrades example_getTradeDetail example_trades) = 3 \<and>
   map Trade.truncate (fetchPostInfoForTrades example_getTradeDetail example_trades)
     = example_trades \<and>
   postTitle (fetchPostInfoForTrades example_getTradeDetail example_trades ! 1)
     = Some no_title \<and>
   postCategory (fetchPostInfoForTrades example_getTradeDetail example_trades ! 1)
     = Some no_category \<and>
   postTitle (fetchPostInfoForTrades example_getTradeDetail example_trades ! 2)
     = Some (js ''Patent'') \<and>
   postCategory (fetchPostInfoForTrades example_getTradeDetail example_trades ! 2)
     = Some korean_PRODUCT"
proof -
  have h1: "(1::nat) < length example_trades" by (simp add: example_trades_def)
  have h2: "isl (example_getTradeDetail 1 (id' (example_trades ! 1)))"
    by (simp add: example_getTradeDetail_def)
  have h3: "\<forall>i<length example_trades. i \<noteq> 1 \<longrightarrow>
      \<not> isl (example_getTradeDetail i (id' (example_trades ! i)))"
    by (simp add: example_getTradeDetail_def)
  show ?thesis
    using h1 h2 h3 fetchPostInfoForTrades_partial_failure
      [of 1 example_trades example_getTradeDetail, OF h1 h2 h3]
    by (simp add: example_trades_def example_getTradeDetail_def example_detail_def
          getCategoryLabel_def category_defs js_def)
qed

section \<open>The filtered list\<close>


lemma decimal_digits_digits: "decimal_digits n acc = digits n @ acc"
proof (induction n acc rule: decimal_digits.induct)
  case (1 n acc)
  show ?case
  proof (cases "n < 10")
    case True
    then show ?thesis by (simp add: decimal_digits.simps [of n] digits.simps [of n])
  next
    case False
    with "1" show ?thesis by (simp add: decimal_digits.simps [of n] digits.simps [of n])
  qed
qed



text \<open>The decimal string of a natural number reads back as that number.\<close>

lemma decimal_value_digits: "decimal_value (digits n) = n"
proof (induction n rule: digits.induct)
  case (1 n)
  have u: "unat (of_nat (48 + d) :: 16 word) = 48 + d" if "d < 10" for d :: nat
    using that by (simp add: unat_of_nat del: of_nat_add)
  show ?case
  proof (cases "n < 10")
    case True
    then show ?thesis by (simp add: digits.simps [of n] decimal_value_def u del: of_nat_add)
  next
    case False
    with "1" have "decimal_value (digits (n div 10)) = n div 10" by simp
    with False show ?thesis
      by (simp add: digits.simps [of n] decimal_value_def u del: of_nat_add)
  qed
qed

lemma decimal_value_spec_decimal: "0 \<le> n \<Longrightarrow> int (decimal_value (spec_decimal n)) = n"
  by (simp add: spec_decimal_def decimal_digits_digits decimal_value_digits)





section \<open>The sorted list\<close>

text \<open>
  C6. Sorting three trades with the prices 300, 100 and 200 by the key \<open>price\<close> gives
  the order 100, 200, 300 when ascending and 300, 200, 100 when descending.
\<close>

theorem sortedTrades_by_price:
  "sortedTrades getTime (js ''price'') asc
     [a\<lparr>price := 300\<rparr>, b\<lparr>price := 100\<rparr>, c\<lparr>price := 200\<rparr>]
     = [b\<lparr>price := 100\<rparr>, c\<lparr>price := 200\<rparr>, a\<lparr>price := 300\<rparr>] \<and>
   sortedTrades getTime (js ''price'') desc
     [a\<lparr>price := 300\<rparr>, b\<lparr>price := 100\<rparr>, c\<lparr>price := 200\<rparr>]
     = [a\<lparr>price := 300\<rparr>, c\<lparr>price := 200\<rparr>, b\<lparr>price := 100\<rparr>]"
  by (simp add: sortedTrades_def Array_sort_def compareTrades_def sortValues_def js_def)

section \<open>Login failures\<close>

text \<open>
  C7. When the login request fails and the payload of the response carries no message,
  the error shown follows from the status: 401 and 400 give the credential-mismatch
  message; 403 gives the deactivated-account message for the result code \<open>403-1\<close>, the
  suspended-account message for \<open>403-2\<close> and the no-permission message for any other
  result code; 500 gives the server-error message.
\<close>

theorem login_status_only_message:
  assumes "post (login_formData s) = Inl e"
    and "response_message e = None"
  shows
    "(response_status e = Some 401 \<longrightarrow>
        login_error (LoginPage_handleSubmit post s) = credential_mismatch) \<and>
     (response_status e = Some 400 \<longrightarrow>
        login_error (LoginPage_handleSubmit post s) = credential_mismatch) \<and>
     (response_status e = Some 403 \<longrightarrow> response_resultCode e = Some (js ''403-1'') \<longrightarrow>
        login_error (LoginPage_handleSubmit post s) = account_deactivated) \<and>
     (response_status e = Some 403 \<longrightarrow> response_resultCode e = Some (js ''403-2'') \<longrightarrow>
        login_error (LoginPage_handleSubmit post s) = account_suspended) \<and>
     (response_status e = Some 403 \<longrightarrow> response_resultCode e \<noteq> Some (js ''403-1'') \<longrightarrow>
      response_resultCode e \<noteq> Some (js ''403-2'') \<longrightarrow>
        login_error (LoginPage_handleSubmit post s) = no_permission) \<and>
     (response_status e = Some 500 \<longrightarrow>
        login_error (LoginPage_handleSubmit post s) = server_error)"
proof -
  have "login_error (LoginPage_handleSubmit post s) = loginErrorMessage e"
    using assms(1) by (simp add: LoginPage_handleSubmit_def Let_def)
  then show ?thesis
    using assms(2) by (simp add: loginErrorMessage_def js_def)
qed

theorem login_status_only_message_witness:
  "login_error (LoginPage_handleSubmit (\<lambda>f. Inl (example_login_error 401 None)) example_login)
     = credential_mismatch \<and>
   login_error (LoginPage_handleSubmit (\<lambda>f. Inl (example_login_error 400 None)) example_login)
     = credential_mismatch \<and>
   login_error (LoginPage_handleSubmit
      (\<lambda>f. Inl (example_login_error 403 (Some (js ''403-1'')))) example_login)
     = account_deactivated \<and>
   login_error (LoginPage_handleSubmit
      (\<lambda>f. Inl (example_login_error 403 (Some (js ''403-2'')))) example_login)
     = account_suspended \<and>
   login_error (LoginPage_handleSubmit
      (\<lambda>f. Inl (example_login_error 403 (Some (js ''403-9'')))) example_login)
     = no_permission \<and>
   login_error (LoginPage_handleSubmit (\<lambda>f. Inl (example_login_error 500 None)) example_login)
     = server_error"
proof -
  have m: "response_message (example_login_error st rc) = None" for st rc
    by (simp add: response_message_def example_login_error_def)
  have st: "response_status (example_login_error st rc) = Some st" for st rc
    by (simp add: response_status_def example_login_error_def)
  have rc: "response_resultCode (example_login_error st rc) = rc" for st rc
    by (simp add: response_resultCode_def example_login_error_def)
  note w = login_status_only_message [of "\<lambda>f. Inl (example_login_error st rc)" example_login
      "example_login_error st rc" for st rc, OF refl m]
  show ?thesis
    using w [of 401 None] w [of 400 None] w [of 403 "Some (js ''403-1'')"]
      w [of 403 "Some (js ''403-2'')"] w [of 403 "Some (js ''403-9'')"] w [of 500 None]
    by (simp add: st rc js_def)
qed

section \<open>Closing the modal\<close>

text \<open>
  C9. After \<open>handleClose\<close> has run, the modal's trade and error are both null, whatever
  they were and whatever the parent's \<open>onClose\<close> does, and a click on a close button of a
  modal showing a loaded trade leaves no trade on display. A click on the backdrop of
  that modal runs no handler: the modal stays open and the loaded trade stays on display.
\<close>

theorem handleClose_resets_backdrop_click_does_not:
  "trade (fst (handleClose onClose (m, parent))) = None \<and>
   error (fst (handleClose onClose (m, parent))) = None \<and>
   snd (handleClose onClose (m, parent)) = onClose parent \<and>
   map_option displayedTrade
     (run [TradeClick 5, Settle 0 (Inr (Some d)), CloseClick] initialPage) = Some None \<and>
   map_option displayedTrade
     (run [TradeClick 5, Settle 0 (Inr (Some d)), BackdropClick] initialPage)
     = Some (Some d) \<and>
   map_option isModalOpen
     (run [TradeClick 5, Settle 0 (Inr (Some d)), BackdropClick] initialPage) = Some True"
  by (simp add: initialPage_def handleTradeClick_def render_def modalEffect_def
        initialModal_def fetchTradeDetail_begin_def closeModal_def handleClose_def
        handleModalClose_def fetchTradeDetail_settle_def displayedTrade_def)

section \<open>Validation on registration\<close>

text \<open>
  C10. If the password and its confirmation differ, or the terms are not agreed to,
  \<open>handleSubmit\<close> of the registration page sets the matching validation message, clears
  the loading flag and returns: no signup request is sent and the router is not used.
\<close>

theorem register_validation_blocks_signup:
  assumes "password (formData s) \<noteq> confirmPassword (formData s) \<or> \<not> agree (formData s)"
  shows
    "posted (RegisterPage_handleSubmit post s) = posted s \<and>
     pushed (RegisterPage_handleSubmit post s) = pushed s \<and>
     register_error (RegisterPage_handleSubmit post s) =
       (if password (formData s) \<noteq> confirmPassword (formData s) then password_mismatch
        else terms_not_agreed) \<and>
     \<not> register_isLoading (RegisterPage_handleSubmit post s)"
  using assms by (auto simp add: RegisterPage_handleSubmit_def Let_def)

theorem register_validation_blocks_signup_witness:
  "posted (RegisterPage_handleSubmit (\<lambda>r. Inr ()) (example_register (js ''secrex'') True)) = [] \<and>
   register_error (RegisterPage_handleSubmit (\<lambda>r. Inr ()) (example_register (js ''secrex'') True))
     = password_mismatch \<and>
   posted (RegisterPage_handleSubmit (\<lambda>r. Inr ()) (example_register (js ''secret'') False)) = [] \<and>
   register_error (RegisterPage_handleSubmit (\<lambda>r. Inr ()) (example_register (js ''secret'') False))
     = terms_not_agreed \<and>
   posted (RegisterPage_handleSubmit (\<lambda>r. Inr ()) (example_register (js ''secret'') True)) \<noteq> []"
proof -
  have h1: "password (formData (example_register (js ''secrex'') True))
      \<noteq> confirmPassword (formData (example_register (js ''secrex'') True))
      \<or> \<not> agree (formData (example_register (js ''secrex'') True))"
    by (simp add: example_register_def js_def)
  have h2: "password (formData (example_register (js ''secret'') False))
      \<noteq> confirmPassword (formData (example_register (js ''secret'') False))
      \<or> \<not> agree (formData (example_register (js ''secret'') False))"
    by (simp add: example_register_def js_def)
  have ok: "posted (RegisterPage_handleSubmit (\<lambda>r. Inr ()) (example_register (js ''secret'') True)) \<noteq> []"
    by (simp add: RegisterPage_handleSubmit_def example_register_def Let_def)
  show ?thesis
    using register_validation_blocks_signup [OF h1, of "\<lambda>r. Inr ()"]
      register_validation_blocks_signup [OF h2, of "\<lambda>r. Inr ()"] ok
    by (simp add: example_register_def js_def)
qed

section \<open>Late results of the detail request\<close>

lemmas page_defs =
  initialPage_def handleTradeClick_def render_def modalEffect_def initialModal_def
  fetchTradeDetail_begin_def closeModal_def handleClose_def handleModalClose_def
  fetchTradeDetail_settle_def displayedTrade_def

text \<open>
  C2, as stated: a result whose identifier is no longer the requested one is never
  applied. Trade 5 is clicked and then, with its request pending and the modal still
  mounted, trade 7; the request for 7 settles first and the one for 5 after it. The
  page then shows the data of trade 5 while the requested identifier is 7.
\<close>

theorem stale_detail_applied_counterexample:
  "map_option selectedTradeId
     (run [TradeClick 5, TradeClick 7,
           Settle 1 (Inr (Some (example_detail 7 (js ''Seven'') (js ''METHOD'')))),
           Settle 0 (Inr (Some (example_detail 5 (js ''Five'') (js ''PRODUCT''))))]
        initialPage) = Some (Some 7) \<and>
   map_option displayedTrade
     (run [TradeClick 5, TradeClick 7,
           Settle 1 (Inr (Some (example_detail 7 (js ''Seven'') (js ''METHOD'')))),
           Settle 0 (Inr (Some (example_detail 5 (js ''Five'') (js ''PRODUCT''))))]
        initialPage) = Some (Some (example_detail 5 (js ''Five'') (js ''PRODUCT''))) \<and>
   detail_id (example_detail 5 (js ''Five'') (js ''PRODUCT'')) \<noteq> 7"
  by (simp add: page_defs example_detail_def)

text \<open>
  C2, amended. The modal compares no identifier: a successful result is applied whenever
  the modal that issued the request is still mounted, and a result is dropped when that
  modal is no longer mounted. Closing unmounts the modal, so in the scenario open 5,
  close, open 7, the request for 7 settles, the request for 5 settles, the page shows
  the data of trade 7.
\<close>

theorem settled_detail_applied_while_mounted:
  "(i < length (pending p) \<longrightarrow> modal p = Some (fst (pending p ! i), m) \<longrightarrow>
      (\<exists>p'. step (Settle i (Inr d)) p = Some p' \<and> displayedTrade p' = d \<and>
            selectedTradeId p' = selectedTradeId p)) \<and>
   (i < length (pending p) \<longrightarrow> (\<forall>m. modal p \<noteq> Some (fst (pending p ! i), m)) \<longrightarrow>
      (\<exists>p'. step (Settle i outcome) p = Some p' \<and> modal p' = modal p)) \<and>
   (step CloseClick p = Some q \<longrightarrow> modal q = None) \<and>
   map_option displayedTrade
     (run [TradeClick 5, CloseClick, TradeClick 7, Settle 1 (Inr (Some d7)),
           Settle 0 (Inr (Some d5))] initialPage) = Some (Some d7)"
proof -
  have a: "i < length (pending p) \<longrightarrow> modal p = Some (fst (pending p ! i), m) \<longrightarrow>
      (\<exists>p'. step (Settle i (Inr d)) p = Some p' \<and> displayedTrade p' = d \<and>
            selectedTradeId p' = selectedTradeId p)"
    by (simp add: Let_def fetchTradeDetail_settle_def displayedTrade_def)
  have b: "i < length (pending p) \<longrightarrow> (\<forall>m. modal p \<noteq> Some (fst (pending p ! i), m)) \<longrightarrow>
      (\<exists>p'. step (Settle i outcome) p = Some p' \<and> modal p' = modal p)"
    by (auto simp add: Let_def split: option.splits)
  have c: "step CloseClick p = Some q \<longrightarrow> modal q = None"
    by (auto simp add: closeModal_def handleClose_def handleModalClose_def render_def
          split: option.splits if_splits prod.splits)
  have d: "map_option displayedTrade
     (run [TradeClick 5, CloseClick, TradeClick 7, Settle 1 (Inr (Some d7)),
           Settle 0 (Inr (Some d5))] initialPage) = Some (Some d7)"
    by (simp add: page_defs)
  show ?thesis using a b c d by blast
qed

theorem settled_detail_applied_while_mounted_witness:
  "run [TradeClick 5, TradeClick 7] initialPage = Some example_page_switched \<and>
   run [TradeClick 5, CloseClick, TradeClick 7] initialPage = Some example_page_reopened \<and>
   map_option displayedTrade
     (step (Settle 0 (Inr (Some (example_detail 5 (js ''Five'') (js ''PRODUCT'')))))
        example_page_switched)
     = Some (Some (example_detail 5 (js ''Five'') (js ''PRODUCT''))) \<and>
   map_option modal
     (step (Settle 0 (Inr (Some (example_detail 5 (js ''Five'') (js ''PRODUCT'')))))
        example_page_reopened)
     = Some (modal example_page_reopened) \<and>
   map_option modal (step CloseClick example_page_switched) = Some None"
proof -
  have r1: "run [TradeClick 5, TradeClick 7] initialPage = Some example_page_switched"
    by (simp add: page_defs example_page_switched_def)
  have r2: "run [TradeClick 5, CloseClick, TradeClick 7] initialPage = Some example_page_reopened"
    by (simp add: page_defs example_page_reopened_def)
  have h1: "0 < length (pending example_page_switched)"
    by (simp add: example_page_switched_def)
  have h2: "modal example_page_switched =
      Some (fst (pending example_page_switched ! 0),
            \<lparr>trade = None, isLoading = True, error = None\<rparr>)"
    by (simp add: example_page_switched_def)
  have h3: "0 < length (pending example_page_reopened)"
    by (simp add: example_page_reopened_def)
  have h4: "\<forall>m. modal example_page_reopened \<noteq> Some (fst (pending example_page_reopened ! 0), m)"
    by (simp add: example_page_reopened_def)
  obtain q where h5: "step CloseClick example_page_switched = Some q"
    by (simp add: example_page_switched_def page_defs)
  show ?thesis
    using r1 r2 h1 h2 h3 h4 h5
      settled_detail_applied_while_mounted
        [of 0 example_page_switched "\<lparr>trade = None, isLoading = True, error = None\<rparr>"
            "Some (example_detail 5 (js ''Five'') (js ''PRODUCT''))" _ q]
      settled_detail_applied_while_mounted
        [of 0 example_page_reopened _ _
            "Inr (Some (example_detail 5 (js ''Five'') (js ''PRODUCT'')))"]
    by auto
qed

end
